theory Spec2Isabelle
  imports Complex_Main "HOL-Library.Char_ord" "HOL-Library.List_Lexorder"
begin

section \<open>Values, exceptions and keyed records\<close>

text \<open>
  The module \<^verbatim>\<open>research/reinforcement_learning.py\<close> is embedded function by function.
  Attribute values are the Python scalars the module itself stores in records:
  \<^verbatim>\<open>None\<close>, integers and strings. Rewards and table values are Python floats; they are
  modelled by \<^typ>\<open>real\<close>, so a statement about a value is a statement about the arithmetic
  expression the code evaluates, not about its rounding.
\<close>

datatype pyval = PNone | PInt int | PStr string

datatype py_error = AttributeError | TypeError | IndexError | AssertionError

text \<open>
  A keyword dictionary \<^verbatim>\<open>**kwargs\<close> is an association list in insertion order. A Python
  dictionary never holds one key twice: \<open>wf_dict\<close>.
\<close>

type_synonym attrs = "(string \<times> pyval) list"

definition wf_dict :: "('k \<times> 'v) list \<Rightarrow> bool" where
  "wf_dict d = distinct (map fst d)"

text \<open>
  \<^verbatim>\<open>d1 == d2\<close> on dictionaries: the same number of items, and every item of \<open>d1\<close> is
  found in \<open>d2\<close> under its key with an equal value.
\<close>

definition dict_eq :: "attrs \<Rightarrow> attrs \<Rightarrow> bool" where
  "dict_eq a b = (length a = length b \<and> list_all (\<lambda>(k, v). map_of b k = Some v) a)"

text \<open>
  \<^verbatim>\<open>class AttrDict\<close>, \<^verbatim>\<open>class Action(AttrDict)\<close> and \<^verbatim>\<open>class State(AttrDict)\<close>. The
  constructor argument is \<^verbatim>\<open>_attributes_\<close>; an \<open>Action\<close> also carries the instance
  attribute \<^verbatim>\<open>name\<close>, which is not an entry of \<^verbatim>\<open>_attributes_\<close>.
\<close>

datatype attrdict = AttrDict attrs | State attrs | Action string attrs

datatype py_type = TAttrDict | TState | TAction

fun type_of :: "attrdict \<Rightarrow> py_type" where
  "type_of (AttrDict a) = TAttrDict"
| "type_of (State a) = TState"
| "type_of (Action n a) = TAction"

fun attributes :: "attrdict \<Rightarrow> attrs" where
  "attributes (AttrDict a) = a"
| "attributes (State a) = a"
| "attributes (Action n a) = a"

text \<open>
  \<^verbatim>\<open>AttrDict.__eq__\<close>, inherited unchanged by \<open>Action\<close> and \<open>State\<close>:
  \<^verbatim>\<open>type(self) is type(other) and self._attributes_ == other._attributes_\<close>.
\<close>

definition attrdict_eq :: "attrdict \<Rightarrow> attrdict \<Rightarrow> bool" where
  "attrdict_eq r1 r2 = (type_of r1 = type_of r2 \<and> dict_eq (attributes r1) (attributes r2))"

text \<open>
  \<^verbatim>\<open>sorted(self._attributes_.items())\<close> and \<^verbatim>\<open>sorted(self)\<close> sort the items as tuples.
  The keys of a dictionary are pairwise different, so the order is the order of the keys
  (strings compare lexicographically by character code).
\<close>

definition sorted_items :: "attrs \<Rightarrow> attrs" where
  "sorted_items a = sort_key fst a"

text \<open>
  \<^verbatim>\<open>__hash__\<close>. Python's \<^verbatim>\<open>hash\<close> of a tuple is a function of the tuple's elements
  alone. The model stands for the hash by the tuple that is hashed: equal tuples are equal
  hashes, and different tuples are taken to hash differently (no collisions).
  \<^verbatim>\<open>AttrDict.__hash__\<close> hashes \<^verbatim>\<open>tuple(sorted(self._attributes_.items()))\<close>;
  \<^verbatim>\<open>Action.__hash__\<close> overrides it with \<^verbatim>\<open>tuple([self.name, *sorted(self)])\<close>.
\<close>

datatype hashed = HStr string | HItem string pyval

fun attrdict_hash :: "attrdict \<Rightarrow> hashed list" where
  "attrdict_hash (AttrDict a) = map (\<lambda>(k, v). HItem k v) (sorted_items a)"
| "attrdict_hash (State a) = map (\<lambda>(k, v). HItem k v) (sorted_items a)"
| "attrdict_hash (Action n a) = HStr n # map (\<lambda>(k, v). HItem k v) (sorted_items a)"

text \<open>
  \<^verbatim>\<open>x in xs\<close> on a list: some element is \<open>x\<close> itself or compares equal to \<open>x\<close>.
  Object identity is modelled by identity of the value.
\<close>

definition py_in :: "attrdict \<Rightarrow> attrdict list \<Rightarrow> bool" where
  "py_in x xs = list_ex (\<lambda>y. y = x \<or> attrdict_eq y x) xs"

text \<open>
  Attribute access \<^verbatim>\<open>r.n\<close> and \<^verbatim>\<open>getattr(r, n)\<close> for a data attribute: the instance
  attribute \<^verbatim>\<open>name\<close> of an \<open>Action\<close> is found first; otherwise \<^verbatim>\<open>__getattr__\<close> looks
  the name up in \<^verbatim>\<open>_attributes_\<close> and raises \<^verbatim>\<open>AttributeError\<close> when it is missing.
\<close>

fun getattr :: "attrdict \<Rightarrow> string \<Rightarrow> py_error + pyval" where
  "getattr (Action n a) k =
     (if k = ''name'' then Inr (PStr n)
      else (case map_of a k of Some v \<Rightarrow> Inr v | None \<Rightarrow> Inl AttributeError))"
| "getattr r k = (case map_of (attributes r) k of Some v \<Rightarrow> Inr v | None \<Rightarrow> Inl AttributeError)"

section \<open>Dictionaries keyed by records\<close>

text \<open>
  A dictionary lookup matches a stored key with a probe when they are the same object, or
  when their hashes are equal and \<^verbatim>\<open>==\<close> holds. Keys of the value table are records or
  \<^verbatim>\<open>None\<close>; \<^verbatim>\<open>None\<close> matches only itself. Object identity is modelled by identity of
  the value.
\<close>

definition key_match :: "attrdict option \<Rightarrow> attrdict option \<Rightarrow> bool" where
  "key_match k1 k2 =
     (k1 = k2 \<or>
      (case (k1, k2) of
         (Some r1, Some r2) \<Rightarrow> attrdict_hash r1 = attrdict_hash r2 \<and> attrdict_eq r1 r2
       | _ \<Rightarrow> False))"

text \<open>
  A dictionary in insertion order: \<open>dict_get\<close> is \<^verbatim>\<open>d.get(k)\<close>, \<open>dict_set\<close> is
  \<^verbatim>\<open>d[k] = v\<close>, which overwrites the value under a matching key (the stored key object
  stays) and appends a new item otherwise.
\<close>

fun dict_get :: "(attrdict option \<times> 'v) list \<Rightarrow> attrdict option \<Rightarrow> 'v option" where
  "dict_get [] k = None"
| "dict_get ((k', v') # d) k = (if key_match k' k then Some v' else dict_get d k)"

fun dict_set :: "(attrdict option \<times> 'v) list \<Rightarrow> attrdict option \<Rightarrow> 'v
                 \<Rightarrow> (attrdict option \<times> 'v) list" where
  "dict_set [] k v = [(k, v)]"
| "dict_set ((k', v') # d) k v =
     (if key_match k' k then (k', v) # d else (k', v') # dict_set d k v)"

section \<open>Agents\<close>

text \<open>
  \<^verbatim>\<open>RandomMixin\<close> is imported from a module that is not part of the sources at hand. Its
  generator \<^verbatim>\<open>self.rng\<close> is a state of type \<open>'g\<close> with the two operations the agents
  call: \<^verbatim>\<open>rng.random()\<close> and \<^verbatim>\<open>rng.choice(seq)\<close> on a non-empty sequence, each
  returning its result and the next generator state.
\<close>

record 'g rng_ops =
  rng_random :: "'g \<Rightarrow> real \<times> 'g"
  rng_choice :: "'g \<Rightarrow> attrdict list \<Rightarrow> attrdict \<times> 'g"

type_synonym action_values = "(attrdict option \<times> real) list"

type_synonym value_table = "(attrdict option \<times> action_values) list"

text \<open>
  The fields of \<^verbatim>\<open>Agent\<close>, \<^verbatim>\<open>TabularQLearningAgent\<close> and
  \<^verbatim>\<open>EpsilonGreedyMetaAgent\<close>. \<open>value_function\<close> is
  \<^verbatim>\<open>defaultdict(lambda: defaultdict(float))\<close>.
\<close>

record 'g agent =
  rng :: 'g
  prev_observation :: "attrdict option"
  prev_action :: "attrdict option"
  value_function :: value_table
  learning_rate :: real
  discount_rate :: real
  exploration_rate :: real

text \<open>\<^verbatim>\<open>Agent.start_new_episode\<close>.\<close>

definition start_new_episode :: "'g agent \<Rightarrow> 'g agent" where
  "start_new_episode ag = ag\<lparr>prev_observation := None, prev_action := None\<rparr>"

text \<open>
  \<^verbatim>\<open>TabularQLearningAgent.get_value\<close>. The guard returns \<open>0\<close> for an observation that
  is not a key. Otherwise \<^verbatim>\<open>self.value_function[observation][action]\<close> indexes the inner
  \<^verbatim>\<open>defaultdict(float)\<close>: a missing action is inserted with \<open>0.0\<close> and that value is
  returned. The function returns the value and the agent after the call.
\<close>

definition get_value :: "'g agent \<Rightarrow> attrdict option \<Rightarrow> attrdict option \<Rightarrow> real \<times> 'g agent" where
  "get_value ag observation action =
     (case dict_get (value_function ag) observation of
        None \<Rightarrow> (0, ag)
      | Some vals \<Rightarrow>
          (case dict_get vals action of
             Some v \<Rightarrow> (v, ag)
           | None \<Rightarrow>
               (0, ag\<lparr>value_function :=
                        dict_set (value_function ag) observation (vals @ [(action, 0)])\<rparr>)))"

text \<open>\<^verbatim>\<open>TabularQLearningAgent.get_stored_actions\<close>: the keys of the inner dictionary.\<close>

definition get_stored_actions :: "'g agent \<Rightarrow> attrdict option \<Rightarrow> attrdict option list" where
  "get_stored_actions ag observation =
     (case dict_get (value_function ag) observation of
        None \<Rightarrow> []
      | Some vals \<Rightarrow> map fst vals)"

text \<open>
  \<^verbatim>\<open>max(actions, key=lambda action: self.get_value(observation, action))\<close>: the key of
  each element is computed in order, and a later element replaces the best one only when
  its key is strictly greater.
\<close>

fun max_value_loop :: "'g agent \<Rightarrow> attrdict option \<Rightarrow> attrdict option \<Rightarrow> real
                       \<Rightarrow> attrdict option list \<Rightarrow> attrdict option \<times> 'g agent" where
  "max_value_loop ag observation best best_key [] = (best, ag)"
| "max_value_loop ag observation best best_key (a # as) =
     (case get_value ag observation a of
        (k, ag') \<Rightarrow>
          if k > best_key then max_value_loop ag' observation a k as
          else max_value_loop ag' observation best best_key as)"

text \<open>\<^verbatim>\<open>Agent.get_best_action\<close>; the result \<open>None\<close> is Python's \<^verbatim>\<open>None\<close>.\<close>

definition get_best_action :: "'g agent \<Rightarrow> attrdict option \<Rightarrow> attrdict option \<times> 'g agent" where
  "get_best_action ag observation =
     (case get_stored_actions ag observation of
        [] \<Rightarrow> (None, ag)
      | a # as \<Rightarrow>
          (case get_value ag observation a of
             (k, ag') \<Rightarrow> max_value_loop ag' observation a k as))"

text \<open>\<^verbatim>\<open>Agent.get_best_value\<close>.\<close>

definition get_best_value :: "'g agent \<Rightarrow> attrdict option \<Rightarrow> real \<times> 'g agent" where
  "get_best_value ag observation =
     (case get_best_action ag observation of
        (best, ag') \<Rightarrow> get_value ag' observation best)"

text \<open>
  \<^verbatim>\<open>TabularQLearningAgent.observe_reward\<close>, statement by statement. The final
  assignment indexes the outer \<^verbatim>\<open>defaultdict\<close> (which creates an empty inner dictionary
  for a missing observation) and stores the new value under \<open>prev_action\<close>.
\<close>

definition observe_reward :: "'g agent \<Rightarrow> attrdict option \<Rightarrow> real \<Rightarrow> 'g agent" where
  "observe_reward ag observation reward =
     (case get_value ag (prev_observation ag) (prev_action ag) of
        (prev_value, ag1) \<Rightarrow>
          (case get_best_value ag1 observation of
             (best_value, ag2) \<Rightarrow>
               (let next_value = reward + discount_rate ag2 * best_value;
                    new_value = (1 - learning_rate ag2) * prev_value
                                + learning_rate ag2 * next_value;
                    vals = (case dict_get (value_function ag2) (prev_observation ag2) of
                              None \<Rightarrow> []
                            | Some vs \<Rightarrow> vs)
                in ag2\<lparr>value_function :=
                         dict_set (value_function ag2) (prev_observation ag2)
                           (dict_set vals (prev_action ag2) new_value)\<rparr>)))"

text \<open>\<^verbatim>\<open>Agent.force_act\<close>.\<close>

definition force_act :: "'g agent \<Rightarrow> attrdict option \<Rightarrow> attrdict option
                         \<Rightarrow> attrdict option \<times> 'g agent" where
  "force_act ag observation action =
     (action,
      ag\<lparr>prev_observation := observation,
         prev_action := (if observation = None then None else action)\<rparr>)"

text \<open>
  \<^verbatim>\<open>Agent.act\<close>, the method the epsilon-greedy subclass overrides.
  \<^verbatim>\<open>rng.choice\<close> raises \<^verbatim>\<open>IndexError\<close> on an empty sequence.
\<close>

definition Agent_act :: "'g rng_ops \<Rightarrow> 'g agent \<Rightarrow> attrdict option \<Rightarrow> attrdict list
                         \<Rightarrow> py_error + attrdict option \<times> 'g agent" where
  "Agent_act R ag observation actions =
     (case get_best_action ag observation of
        (best_action, ag1) \<Rightarrow>
          (case best_action of
             Some b \<Rightarrow> Inr (force_act ag1 observation best_action)
           | None \<Rightarrow>
               if actions = [] then Inl IndexError
               else (case rng_choice R (rng ag1) actions of
                       (c, g') \<Rightarrow> Inr (force_act (ag1\<lparr>rng := g'\<rparr>) observation (Some c)))))"

text \<open>
  \<^verbatim>\<open>EpsilonGreedyMetaAgent.act\<close> for \<^verbatim>\<open>epsilon_greedy(TabularQLearningAgent)\<close>. The last
  branch is \<^verbatim>\<open>return self.act(observation, actions, reward)\<close>: \<^verbatim>\<open>self.act\<close> is this
  very method, called again with the same arguments. The result \<open>None\<close> of the model is
  a call that does not return. In the first branch \<open>reward\<close> may be the default
  \<^verbatim>\<open>None\<close>, on which the arithmetic of \<open>observe_reward\<close> raises \<^verbatim>\<open>TypeError\<close>.
\<close>

partial_function (option) EpsilonGreedy_act ::
  "'g rng_ops \<Rightarrow> 'g agent \<Rightarrow> attrdict option \<Rightarrow> attrdict list \<Rightarrow> real option
   \<Rightarrow> (py_error + attrdict option \<times> 'g agent) option" where
  "EpsilonGreedy_act R ag observation actions reward =
     (if actions = [] then
        (case reward of
           None \<Rightarrow> Some (Inl TypeError)
         | Some r \<Rightarrow> Some (Inr (None, observe_reward ag observation r)))
      else
        (case rng_random R (rng ag) of
           (u, g1) \<Rightarrow>
             if u < exploration_rate ag then
               (case rng_choice R g1 actions of
                  (c, g2) \<Rightarrow> Some (Inr (force_act (ag\<lparr>rng := g2\<rparr>) observation (Some c))))
             else EpsilonGreedy_act R (ag\<lparr>rng := g1\<rparr>) observation actions reward))"

section \<open>State augmentation\<close>

text \<open>\<^verbatim>\<open>key.startswith(prefix)\<close>.\<close>

definition startswith :: "string \<Rightarrow> string \<Rightarrow> bool" where
  "startswith key prefix = (take (length prefix) key = prefix)"

text \<open>\<^verbatim>\<open>'{}'.format(i)\<close> for an index \<open>i\<close> of \<^verbatim>\<open>enumerate\<close>: its decimal digits.\<close>

definition digit_char :: "nat \<Rightarrow> char" where
  "digit_char d = char_of (48 + d)"

fun str_nat :: "nat \<Rightarrow> string" where
  "str_nat n = (if n < 10 then [digit_char n] else str_nat (n div 10) @ [digit_char (n mod 10)])"

declare str_nat.simps [simp del]

text \<open>Reading a decimal numeral back, used to show that \<open>str_nat\<close> is injective.\<close>

definition digit_val :: "char \<Rightarrow> nat" where
  "digit_val c = of_char c - 48"

definition val_str :: "string \<Rightarrow> nat" where
  "val_str s = foldl (\<lambda>a c. 10 * a + digit_val c) 0 s"

text \<open>\<^verbatim>\<open>d[k] = v\<close> on a dictionary with string keys.\<close>

fun attrs_set :: "attrs \<Rightarrow> string \<Rightarrow> pyval \<Rightarrow> attrs" where
  "attrs_set [] k v = [(k, v)]"
| "attrs_set ((k', v') # d) k v = (if k' = k then (k', v) # d else (k', v') # attrs_set d k v)"

text \<open>
  The dictionary comprehension
  \<^verbatim>\<open>{(prefix + '{}'.format(i)): value for i, value in enumerate(memories)}\<close>.
\<close>

definition memory_items :: "pyval list \<Rightarrow> string \<Rightarrow> attrs" where
  "memory_items mems prefix =
     foldl (\<lambda>d (i, v). attrs_set d (prefix @ str_nat i) v) [] (enumerate 0 mems)"

text \<open>
  \<^verbatim>\<open>augment_state(state, memories, prefix)\<close>: the copy of the attributes without the keys
  that start with the prefix, and \<^verbatim>\<open>State(**memories, **state)\<close>, a call that raises
  \<^verbatim>\<open>TypeError\<close> when a keyword is given twice.
\<close>

definition augment_state :: "attrdict \<Rightarrow> pyval list \<Rightarrow> string \<Rightarrow> py_error + attrdict" where
  "augment_state state mems prefix =
     (let st = filter (\<lambda>(key, _). \<not> startswith key prefix) (attributes state);
          mem = memory_items mems prefix
      in if list_ex (\<lambda>(key, _). key \<in> set (map fst mem)) st then Inl TypeError
         else Inr (State (mem @ st)))"

section \<open>Memory environments\<close>

text \<open>
  \<^verbatim>\<open>xs[i] = v\<close> and \<^verbatim>\<open>xs[i]\<close> on a list: the index must be an integer, a negative
  index counts from the end, and an index out of range raises \<^verbatim>\<open>IndexError\<close>.
\<close>

definition list_setitem :: "'a list \<Rightarrow> pyval \<Rightarrow> 'a \<Rightarrow> py_error + 'a list" where
  "list_setitem xs idx v =
     (case idx of
        PInt i \<Rightarrow>
          (let n = int (length xs); j = (if i < 0 then n + i else i)
           in if 0 \<le> j \<and> j < n then Inr (xs[nat j := v]) else Inl IndexError)
      | _ \<Rightarrow> Inl TypeError)"

definition list_getitem :: "'a list \<Rightarrow> pyval \<Rightarrow> py_error + 'a" where
  "list_getitem xs idx =
     (case idx of
        PInt i \<Rightarrow>
          (let n = int (length xs); j = (if i < 0 then n + i else i)
           in if 0 \<le> j \<and> j < n then Inr (xs ! nat j) else Inl IndexError)
      | _ \<Rightarrow> Inl TypeError)"

text \<open>
  \<^verbatim>\<open>getattr(observation, attribute)\<close> on the result of \<^verbatim>\<open>super().get_observation()\<close>:
  the attribute name must be a string, and \<^verbatim>\<open>None\<close> has no data attributes.
\<close>

definition getattr_observation :: "attrdict option \<Rightarrow> pyval \<Rightarrow> py_error + pyval" where
  "getattr_observation observation attribute =
     (case attribute of
        PStr a \<Rightarrow> (case observation of None \<Rightarrow> Inl AttributeError | Some obs \<Rightarrow> getattr obs a)
      | _ \<Rightarrow> Inl TypeError)"

text \<open>
  \<^verbatim>\<open>gating_memory(cls, num_memory_slots, reward)\<close> builds a subclass of \<open>cls\<close>. Its
  instances carry the fields of \<open>cls\<close> (\<open>gm_base\<close>) and the fields \<^verbatim>\<open>reward\<close> and
  \<^verbatim>\<open>memories\<close>. The methods of \<open>cls\<close> reached through \<^verbatim>\<open>super()\<close> are arguments of the
  model: functions of the whole instance, since a method of \<open>cls\<close> may call an overridden
  method on \<^verbatim>\<open>self\<close>.
\<close>

record 'b gating_env =
  gm_base :: 'b
  gm_reward :: real
  gm_memories :: "pyval list"

text \<open>\<^verbatim>\<open>GatingMemoryMetaEnvironment.get_actions\<close>, with its two nested loops.\<close>

definition GatingMemory_get_actions ::
  "('b gating_env \<Rightarrow> attrdict list) \<Rightarrow> ('b gating_env \<Rightarrow> attrdict option)
   \<Rightarrow> 'b gating_env \<Rightarrow> attrdict list" where
  "GatingMemory_get_actions super_get_actions super_get_observation self =
     (let actions = super_get_actions self in
      if actions = [] then actions
      else (case super_get_observation self of
              None \<Rightarrow> actions
            | Some observations \<Rightarrow>
                foldl (\<lambda>acts slot_num.
                         foldl (\<lambda>acts (attr, _).
                                  if startswith attr ''memory_'' then acts
                                  else acts @ [Action ''gate'' [(''slot'', PInt (int slot_num)),
                                                                (''attribute'', PStr attr)]])
                               acts (attributes observations))
                      actions [0..<length (gm_memories self)]))"

text \<open>
  \<^verbatim>\<open>GatingMemoryMetaEnvironment.react\<close>. In the assignment the right-hand side is
  evaluated before the subscript of the target.
\<close>

definition GatingMemory_react ::
  "('b gating_env \<Rightarrow> attrdict option)
   \<Rightarrow> ('b gating_env \<Rightarrow> attrdict \<Rightarrow> py_error + real \<times> 'b gating_env)
   \<Rightarrow> 'b gating_env \<Rightarrow> attrdict \<Rightarrow> py_error + real \<times> 'b gating_env" where
  "GatingMemory_react super_get_observation super_react self action =
     (case getattr action ''name'' of
        Inl e \<Rightarrow> Inl e
      | Inr name \<Rightarrow>
          if name = PStr ''gate'' then
            (case getattr action ''attribute'' of
               Inl e \<Rightarrow> Inl e
             | Inr attribute \<Rightarrow>
                 (case getattr_observation (super_get_observation self) attribute of
                    Inl e \<Rightarrow> Inl e
                  | Inr v \<Rightarrow>
                      (case getattr action ''slot'' of
                         Inl e \<Rightarrow> Inl e
                       | Inr slot \<Rightarrow>
                           (case list_setitem (gm_memories self) slot v of
                              Inl e \<Rightarrow> Inl e
                            | Inr ms \<Rightarrow> Inr (gm_reward self, self\<lparr>gm_memories := ms\<rparr>)))))
          else super_react self action)"

text \<open>
  \<^verbatim>\<open>fixed_long_term_memory(cls, num_wm_slots, num_ltm_slots, reward)\<close>: the fields
  \<^verbatim>\<open>reward\<close>, \<^verbatim>\<open>wm\<close> and \<^verbatim>\<open>ltm\<close> beside those of \<open>cls\<close>.
\<close>

record 'b ltm_env =
  ltm_base :: 'b
  ltm_reward :: real
  ltm_wm :: "pyval list"
  ltm_ltm :: "pyval list"

text \<open>\<^verbatim>\<open>LongTermMemoryMetaEnvironment.get_actions\<close>.\<close>

definition LongTermMemory_get_actions ::
  "('b ltm_env \<Rightarrow> attrdict list) \<Rightarrow> ('b ltm_env \<Rightarrow> attrdict option)
   \<Rightarrow> 'b ltm_env \<Rightarrow> attrdict list" where
  "LongTermMemory_get_actions super_get_actions super_get_observation self =
     (let actions = super_get_actions self in
      if actions = [] then actions
      else (case super_get_observation self of
              None \<Rightarrow> actions
            | Some observations \<Rightarrow>
                (let actions1 =
                       foldl (\<lambda>acts slot_num.
                                foldl (\<lambda>acts (attr, _).
                                         if startswith attr ''wm_'' then acts
                                         else acts @ [Action ''store''
                                                        [(''slot'', PInt (int slot_num)),
                                                         (''attribute'', PStr attr)]])
                                      acts (attributes observations))
                             actions [0..<length (ltm_ltm self)]
                 in foldl (\<lambda>acts wm_slot_num.
                             foldl (\<lambda>acts ltm_slot_num.
                                      acts @ [Action ''retrieve''
                                                [(''wm_slot'', PInt (int wm_slot_num)),
                                                 (''ltm_slot'', PInt (int ltm_slot_num))]])
                                   acts [0..<length (ltm_ltm self)])
                          actions1 [0..<length (ltm_wm self)])))"

text \<open>\<^verbatim>\<open>LongTermMemoryMetaEnvironment.react\<close>.\<close>

definition LongTermMemory_react ::
  "('b ltm_env \<Rightarrow> attrdict option)
   \<Rightarrow> ('b ltm_env \<Rightarrow> attrdict \<Rightarrow> py_error + real \<times> 'b ltm_env)
   \<Rightarrow> 'b ltm_env \<Rightarrow> attrdict \<Rightarrow> py_error + real \<times> 'b ltm_env" where
  "LongTermMemory_react super_get_observation super_react self action =
     (case getattr action ''name'' of
        Inl e \<Rightarrow> Inl e
      | Inr name \<Rightarrow>
          if name = PStr ''store'' then
            (case getattr action ''attribute'' of
               Inl e \<Rightarrow> Inl e
             | Inr attribute \<Rightarrow>
                 (case getattr_observation (super_get_observation self) attribute of
                    Inl e \<Rightarrow> Inl e
                  | Inr v \<Rightarrow>
                      (case getattr action ''slot'' of
                         Inl e \<Rightarrow> Inl e
                       | Inr slot \<Rightarrow>
                           (case list_setitem (ltm_ltm self) slot v of
                              Inl e \<Rightarrow> Inl e
                            | Inr ms \<Rightarrow> Inr (ltm_reward self, self\<lparr>ltm_ltm := ms\<rparr>)))))
          else if name = PStr ''retrieve'' then
            (case getattr action ''ltm_slot'' of
               Inl e \<Rightarrow> Inl e
             | Inr ltm_slot \<Rightarrow>
                 (case list_getitem (ltm_ltm self) ltm_slot of
                    Inl e \<Rightarrow> Inl e
                  | Inr v \<Rightarrow>
                      (case getattr action ''wm_slot'' of
                         Inl e \<Rightarrow> Inl e
                       | Inr wm_slot \<Rightarrow>
                           (case list_setitem (ltm_wm self) wm_slot v of
                              Inl e \<Rightarrow> Inl e
                            | Inr ms \<Rightarrow> Inr (ltm_reward self, self\<lparr>ltm_wm := ms\<rparr>)))))
          else super_react self action)"

section \<open>The T-maze under the memory decorators\<close>

text \<open>The fields of \<^verbatim>\<open>SimpleTMaze\<close>.\<close>

record tmaze =
  tm_length :: int
  tm_hint_pos :: int
  tm_x :: int
  tm_y :: int
  tm_init_goal_x :: int
  tm_goal_x :: int

text \<open>\<^verbatim>\<open>SimpleTMaze.get_observation\<close>.\<close>

definition SimpleTMaze_get_observation :: "tmaze \<Rightarrow> attrdict" where
  "SimpleTMaze_get_observation t =
     (if tm_y t = tm_hint_pos t
      then State [(''x'', PInt (tm_x t)), (''y'', PInt (tm_y t)), (''symbol'', PInt (tm_goal_x t))]
      else State [(''x'', PInt (tm_x t)), (''y'', PInt (tm_y t)), (''symbol'', PInt 0)])"

text \<open>\<^verbatim>\<open>SimpleTMaze.get_actions\<close>.\<close>

definition SimpleTMaze_get_actions :: "tmaze \<Rightarrow> attrdict list" where
  "SimpleTMaze_get_actions t =
     (if tm_x t = 0 then
        (if tm_y t < tm_length t then [Action ''up'' []]
         else if tm_y t = tm_length t then [Action ''left'' [], Action ''right'' []]
         else [])
      else [])"

text \<open>
  \<^verbatim>\<open>SimpleTMaze.react\<close>. Its first statement is
  \<^verbatim>\<open>assert action in self.get_actions()\<close>; \<^verbatim>\<open>self.get_actions()\<close> is the method of
  the instance's class, so its result \<open>own_actions\<close> is an argument.
\<close>

definition SimpleTMaze_react :: "attrdict list \<Rightarrow> tmaze \<Rightarrow> attrdict \<Rightarrow> py_error + real \<times> tmaze" where
  "SimpleTMaze_react own_actions t action =
     (if \<not> py_in action own_actions then Inl AssertionError
      else (case getattr action ''name'' of
              Inl e \<Rightarrow> Inl e
            | Inr name \<Rightarrow>
                (let t' = (if name = PStr ''up'' then t\<lparr>tm_y := tm_y t + 1\<rparr>
                           else if name = PStr ''right'' then t\<lparr>tm_x := tm_x t + 1\<rparr>
                           else if name = PStr ''left'' then t\<lparr>tm_x := tm_x t - 1\<rparr>
                           else t)
                 in if tm_y t' = tm_length t' then
                      (if tm_x t' = tm_goal_x t' then Inr (10, t')
                       else if tm_x t' = - tm_goal_x t' then Inr (- 10, t')
                       else Inr (- 1, t'))
                    else if name = PStr ''gate'' then Inr (- 0.050, t')
                    else Inr (- 1, t'))))"

text \<open>The class \<^verbatim>\<open>gating_memory(SimpleTMaze, ...)\<close>.\<close>

definition GatedTMaze_get_observation :: "tmaze gating_env \<Rightarrow> attrdict option" where
  "GatedTMaze_get_observation self = Some (SimpleTMaze_get_observation (gm_base self))"

definition GatedTMaze_get_actions :: "tmaze gating_env \<Rightarrow> attrdict list" where
  "GatedTMaze_get_actions =
     GatingMemory_get_actions (\<lambda>self. SimpleTMaze_get_actions (gm_base self))
       GatedTMaze_get_observation"

definition GatedTMaze_react ::
  "tmaze gating_env \<Rightarrow> attrdict \<Rightarrow> py_error + real \<times> tmaze gating_env" where
  "GatedTMaze_react =
     GatingMemory_react GatedTMaze_get_observation
       (\<lambda>self action.
          case SimpleTMaze_react (GatedTMaze_get_actions self) (gm_base self) action of
            Inl e \<Rightarrow> Inl e
          | Inr (r, t') \<Rightarrow> Inr (r, self\<lparr>gm_base := t'\<rparr>))"

text \<open>The class \<^verbatim>\<open>fixed_long_term_memory(SimpleTMaze, ...)\<close>.\<close>

definition LtmTMaze_get_observation :: "tmaze ltm_env \<Rightarrow> attrdict option" where
  "LtmTMaze_get_observation self = Some (SimpleTMaze_get_observation (ltm_base self))"

definition LtmTMaze_get_actions :: "tmaze ltm_env \<Rightarrow> attrdict list" where
  "LtmTMaze_get_actions =
     LongTermMemory_get_actions (\<lambda>self. SimpleTMaze_get_actions (ltm_base self))
       LtmTMaze_get_observation"

definition LtmTMaze_react ::
  "tmaze ltm_env \<Rightarrow> attrdict \<Rightarrow> py_error + real \<times> tmaze ltm_env" where
  "LtmTMaze_react =
     LongTermMemory_react LtmTMaze_get_observation
       (\<lambda>self action.
          case SimpleTMaze_react (LtmTMaze_get_actions self) (ltm_base self) action of
            Inl e \<Rightarrow> Inl e
          | Inr (r, t') \<Rightarrow> Inr (r, self\<lparr>ltm_base := t'\<rparr>))"

text \<open>
  \<^verbatim>\<open>SimpleTMaze(length=1, hint_pos=0, goal_x=1)\<close> after \<^verbatim>\<open>start_new_episode()\<close>, at the
  coordinates \<open>(x, y)\<close>; with one memory slot (one working-memory and one long-term slot)
  and internal reward \<open>0\<close>.
\<close>

definition maze_at :: "int \<Rightarrow> int \<Rightarrow> tmaze" where
  "maze_at x y = \<lparr>tm_length = 1, tm_hint_pos = 0, tm_x = x, tm_y = y,
                  tm_init_goal_x = 1, tm_goal_x = 1\<rparr>"

definition gated_maze :: "int \<Rightarrow> int \<Rightarrow> pyval list \<Rightarrow> tmaze gating_env" where
  "gated_maze x y ms = \<lparr>gm_base = maze_at x y, gm_reward = 0, gm_memories = ms\<rparr>"

definition ltm_maze :: "int \<Rightarrow> int \<Rightarrow> pyval list \<Rightarrow> pyval list \<Rightarrow> tmaze ltm_env" where
  "ltm_maze x y ws ls = \<lparr>ltm_base = maze_at x y, ltm_reward = 0, ltm_wm = ws, ltm_ltm = ls\<rparr>"

section \<open>Concrete agents\<close>

text \<open>
  A generator that replays a script of digits: \<^verbatim>\<open>random()\<close> returns the next digit
  \<open>d\<close> as \<open>d/10\<close> (a value in \<open>[0, 1)\<close>), \<^verbatim>\<open>choice(seq)\<close> returns the element at the
  next digit's index.
\<close>

definition scripted_rng :: "nat list rng_ops" where
  "scripted_rng =
     \<lparr>rng_random = (\<lambda>g. case g of [] \<Rightarrow> (0, []) | n # ns \<Rightarrow> (real (n mod 10) / 10, ns)),
      rng_choice = (\<lambda>g xs. case g of [] \<Rightarrow> (hd xs, [])
                            | n # ns \<Rightarrow> (xs ! (n mod length xs), ns))\<rparr>"

text \<open>
  The agent \<^verbatim>\<open>epsilon_greedy(TabularQLearningAgent)(exploration_rate, learning_rate,
  discount_rate)\<close> right after construction.
\<close>

definition new_agent :: "'g \<Rightarrow> real \<Rightarrow> real \<Rightarrow> real \<Rightarrow> 'g agent" where
  "new_agent g epsilon alpha gamma =
     \<lparr>rng = g, prev_observation = None, prev_action = None, value_function = [],
      learning_rate = alpha, discount_rate = gamma, exploration_rate = epsilon\<rparr>"

definition cell00 :: "attrdict option" where
  "cell00 = Some (State [(''row'', PInt 0), (''col'', PInt 0)])"

definition act_right :: "attrdict option" where
  "act_right = Some (Action ''right'' [])"

definition act_down :: "attrdict option" where
  "act_down = Some (Action ''down'' [])"

text \<open>
  An agent with learning rate \<open>1/2\<close> and discount rate \<open>1\<close> that took \<^verbatim>\<open>right\<close> at
  \<open>cell00\<close> and observed the reward \<open>-2\<close> at the end of the episode.
\<close>

definition trained_agent :: "nat list \<Rightarrow> nat list agent" where
  "trained_agent g =
     observe_reward (snd (force_act (new_agent g (1/2) (1/2) 1) cell00 act_right)) None (- 2)"

section \<open>Equality and hashing of records\<close>

lemma dict_eq_of_set_eq:
  assumes "wf_dict a" and "wf_dict b" and "set a = set b"
  shows "dict_eq a b"
proof -
  have da: "distinct a" and db: "distinct b"
    using assms(1,2) by (simp_all add: wf_dict_def distinct_map)
  have "length a = card (set a)" using da by (simp add: distinct_card)
  also have "\<dots> = length b" using db assms(3) by (simp add: distinct_card)
  finally have len: "length a = length b" .
  have "map_of b k = Some v" if "(k, v) \<in> set a" for k v
    using that assms(2,3) by (simp add: wf_dict_def)
  then show ?thesis using len by (auto simp: dict_eq_def list_all_iff)
qed

lemma attrdict_eq_name_irrelevant:
  "attrdict_eq y (Action n1 kw) = attrdict_eq y (Action n2 kw)"
  by (simp add: attrdict_eq_def)

text \<open>
  C10. Equality of actions does not look at the name: two actions built from the same
  keyword attributes (in any insertion order) compare equal whatever their names are, and
  a list-membership test gives the same answer for both.
\<close>

theorem action_eq_ignores_name:
  assumes "wf_dict kw1" and "wf_dict kw2" and "set kw1 = set kw2"
  shows "attrdict_eq (Action name1 kw1) (Action name2 kw2)
         \<and> py_in (Action name1 kw1) acts = py_in (Action name2 kw1) acts"
proof -
  have refl: "dict_eq kw1 kw1"
    using assms(1) by (intro dict_eq_of_set_eq) simp_all
  have "(y = Action name1 kw1 \<or> attrdict_eq y (Action name1 kw1))
        = (y = Action name2 kw1 \<or> attrdict_eq y (Action name2 kw1))" for y
    using refl by (auto simp: attrdict_eq_def)
  then have "py_in (Action name1 kw1) acts = py_in (Action name2 kw1) acts"
    by (simp add: py_in_def)
  moreover have "attrdict_eq (Action name1 kw1) (Action name2 kw2)"
    using dict_eq_of_set_eq [OF assms] by (simp add: attrdict_eq_def)
  ultimately show ?thesis by simp
qed

theorem action_eq_ignores_name_witness:
  "wf_dict [(''slot'', PInt 0), (''attribute'', PStr ''row'')]
   \<and> wf_dict [(''attribute'', PStr ''row''), (''slot'', PInt 0)]
   \<and> attrdict_eq (Action ''gate'' [(''slot'', PInt 0), (''attribute'', PStr ''row'')])
                  (Action ''up'' [(''attribute'', PStr ''row''), (''slot'', PInt 0)])
   \<and> py_in (Action ''gate'' [(''slot'', PInt 0), (''attribute'', PStr ''row'')]) [Action ''up'' []]
     = py_in (Action ''up'' [(''slot'', PInt 0), (''attribute'', PStr ''row'')]) [Action ''up'' []]"
proof -
  have a: "wf_dict [(''slot'', PInt 0), (''attribute'', PStr ''row'')]"
    by (simp add: wf_dict_def)
  have b: "wf_dict [(''attribute'', PStr ''row''), (''slot'', PInt 0)]"
    by (simp add: wf_dict_def)
  have c: "set [(''slot'', PInt 0), (''attribute'', PStr ''row'')]
           = set [(''attribute'', PStr ''row''), (''slot'', PInt 0)]"
    by auto
  show ?thesis
    using a b action_eq_ignores_name [OF a b c, of "''gate''" "''up''" "[Action ''up'' []]"]
    by simp
qed

text \<open>
  For records whose class does not override \<^verbatim>\<open>__hash__\<close> (\<open>AttrDict\<close> and \<open>State\<close>),
  equal records have equal hashes.
\<close>

lemma dict_eq_set_eq:
  assumes "wf_dict a" and "wf_dict b" and "dict_eq a b"
  shows "set a = set b"
proof -
  have da: "distinct a" and db: "distinct b"
    using assms(1,2) by (simp_all add: wf_dict_def distinct_map)
  have sub: "set a \<subseteq> set b"
    using assms(3) by (auto simp: dict_eq_def list_all_iff dest: map_of_SomeD)
  have "card (set a) = card (set b)"
    using assms(3) da db by (simp add: dict_eq_def distinct_card)
  then show ?thesis using sub by (simp add: card_subset_eq)
qed

lemma same_keys_same_items:
  assumes "map fst xs = map fst ys" and "distinct (map fst ys)" and "set xs = set ys"
  shows "xs = ys"
proof (rule nth_equalityI)
  show len: "length xs = length ys" using assms(1) by (metis length_map)
  fix i assume i: "i < length xs"
  then have "xs ! i \<in> set ys" using assms(3) by (metis nth_mem)
  then obtain j where j: "j < length ys" "ys ! j = xs ! i" by (auto simp: in_set_conv_nth)
  have "map fst ys ! j = map fst xs ! i" using i j by simp
  then have "map fst ys ! j = map fst ys ! i" using assms(1) by simp
  moreover have "j < length (map fst ys)" "i < length (map fst ys)" using i j len by simp_all
  ultimately have "j = i" using assms(2) by (simp only: nth_eq_iff_index_eq)
  then show "xs ! i = ys ! i" using j by simp
qed

lemma sorted_items_set_eq:
  assumes "wf_dict a" and "wf_dict b" and "set a = set b"
  shows "sorted_items a = sorted_items b"
proof -
  let ?sa = "sort_key fst a" and ?sb = "sort_key fst b"
  have ka: "sorted (map fst ?sa)" "distinct (map fst ?sa)" "set (map fst ?sa) = fst ` set a"
    using assms(1) by (simp_all add: wf_dict_def distinct_map)
  have kb: "sorted (map fst ?sb)" "distinct (map fst ?sb)" "set (map fst ?sb) = fst ` set b"
    using assms(2) by (simp_all add: wf_dict_def distinct_map)
  have "map fst ?sa = map fst ?sb"
    using ka kb assms(3) by (intro sorted_distinct_set_unique) simp_all
  then show ?thesis
    unfolding sorted_items_def using kb(2) assms(3) by (intro same_keys_same_items) simp_all
qed

lemma hash_consistent_without_name:
  assumes "wf_dict (attributes r1)" and "wf_dict (attributes r2)" and "attrdict_eq r1 r2"
    and "type_of r1 \<noteq> TAction"
  shows "attrdict_hash r1 = attrdict_hash r2"
proof -
  have "set (attributes r1) = set (attributes r2)"
    using assms(1-3) by (intro dict_eq_set_eq) (simp_all add: attrdict_eq_def)
  then have "sorted_items (attributes r1) = sorted_items (attributes r2)"
    using assms(1,2) by (intro sorted_items_set_eq)
  then show ?thesis
    using assms(3,4) by (cases r1; cases r2) (simp_all add: attrdict_eq_def)
qed

text \<open>
  C3. Hashing is not consistent with equality on actions: \<^verbatim>\<open>Action('up')\<close> and
  \<^verbatim>\<open>Action('down')\<close> compare equal (both have no keyword attributes), and their hashes
  are taken from the different tuples \<^verbatim>\<open>('up',)\<close> and \<^verbatim>\<open>('down',)\<close>.
\<close>

theorem action_hash_not_consistent:
  "attrdict_eq (Action ''up'' []) (Action ''down'' [])
   \<and> attrdict_hash (Action ''up'' []) \<noteq> attrdict_hash (Action ''down'' [])"
  by (simp add: attrdict_eq_def dict_eq_def)

section \<open>State augmentation is idempotent\<close>

lemma digit_val_digit_char: "d < 10 \<Longrightarrow> digit_val (digit_char d) = d"
  by (simp add: digit_val_def digit_char_def)

lemma val_str_snoc: "val_str (s @ [c]) = 10 * val_str s + digit_val c"
  by (simp add: val_str_def)

lemma val_str_str_nat: "val_str (str_nat n) = n"
proof (induction n rule: str_nat.induct)
  case (1 n)
  show ?case
  proof (cases "n < 10")
    case True
    then show ?thesis
      by (subst str_nat.simps) (simp add: val_str_def digit_val_digit_char)
  next
    case False
    then have "val_str (str_nat (n div 10)) = n div 10" using 1 by simp
    then show ?thesis using False
      by (subst str_nat.simps) (simp add: val_str_snoc digit_val_digit_char)
  qed
qed

lemma str_nat_inj: "str_nat m = str_nat n \<Longrightarrow> m = n"
  by (metis val_str_str_nat)

lemma attrs_set_fresh: "k \<notin> set (map fst d) \<Longrightarrow> attrs_set d k v = d @ [(k, v)]"
  by (induction d) auto

lemma foldl_attrs_set_fresh:
  "distinct (map fst ps) \<Longrightarrow> set (map fst ps) \<inter> set (map fst d) = {} \<Longrightarrow>
   foldl (\<lambda>d (k, v). attrs_set d k v) d ps = d @ ps"
proof (induction ps arbitrary: d)
  case Nil
  then show ?case by simp
next
  case (Cons p ps)
  obtain k v where p: "p = (k, v)" by (cases p)
  have fresh: "k \<notin> set (map fst d)" using Cons.prems(2) p by auto
  have "foldl (\<lambda>d (k, v). attrs_set d k v) (d @ [(k, v)]) ps = (d @ [(k, v)]) @ ps"
    using Cons.prems p by (intro Cons.IH) auto
  then show ?case using p fresh by (simp add: attrs_set_fresh)
qed

lemma memory_items_eq: "memory_items v p = zip (map (\<lambda>i. p @ str_nat i) [0..<length v]) v"
proof -
  let ?ps = "map (\<lambda>(i, x). (p @ str_nat i, x)) (enumerate 0 v)"
  have keys: "map fst ?ps = map (\<lambda>i. p @ str_nat i) [0..<length v]"
    by (rule nth_equalityI) (simp_all add: enumerate_eq_zip case_prod_unfold)
  have "distinct (map fst ?ps)"
    unfolding keys by (auto simp: distinct_map intro!: inj_onI dest: str_nat_inj)
  then have "foldl (\<lambda>d (k, v). attrs_set d k v) [] ?ps = [] @ ?ps"
    by (intro foldl_attrs_set_fresh) auto
  moreover have "foldl (\<lambda>d (k, v). attrs_set d k v) [] ?ps = memory_items v p"
    by (simp add: memory_items_def foldl_map case_prod_unfold)
  moreover have "?ps = zip (map (\<lambda>i. p @ str_nat i) [0..<length v]) v"
    by (simp add: enumerate_eq_zip zip_map1 case_prod_unfold)
  ultimately show ?thesis by simp
qed


lemma startswith_append [simp]: "startswith (p @ s) p"
  by (simp add: startswith_def)

lemma memory_items_keys: "(k, x) \<in> set (memory_items v p) \<Longrightarrow> startswith k p"
  by (auto simp: memory_items_eq dest!: set_zip_leftD)

lemma augment_state_eq:
  "augment_state s v p =
     Inr (State (memory_items v p @ filter (\<lambda>(key, _). \<not> startswith key p) (attributes s)))"
  by (auto simp: augment_state_def Let_def list_ex_iff dest: memory_items_keys)

lemma filter_prefixed_memory_items:
  "filter (\<lambda>(key, _). startswith key p) (memory_items v p) = memory_items v p"
  "filter (\<lambda>(key, _). \<not> startswith key p) (memory_items v p) = []"
  by (auto simp: filter_empty_conv dest: memory_items_keys intro!: filter_True)

text \<open>
  C8. \<open>augment_state\<close> always returns a \<open>State\<close>. Its attributes that start with the
  prefix are exactly \<open>prefix0 .. prefix(k-1)\<close> with the values of the slot vector, in
  order; its other attributes are those of the argument, unchanged. Augmenting the result
  again with a vector \<open>v'\<close> (of the same or any other length) replaces the prefixed
  attributes: there are exactly \<open>length v'\<close> of them, valued by \<open>v'\<close>, and the other
  attributes are still those of the first argument.
\<close>

theorem augment_state_idempotent:
  "\<exists>t t'. augment_state s v p = Inr (State t)
     \<and> filter (\<lambda>(key, _). startswith key p) t = zip (map (\<lambda>i. p @ str_nat i) [0..<length v]) v
     \<and> filter (\<lambda>(key, _). \<not> startswith key p) t
         = filter (\<lambda>(key, _). \<not> startswith key p) (attributes s)
     \<and> augment_state (State t) v' p = Inr (State t')
     \<and> filter (\<lambda>(key, _). startswith key p) t' = zip (map (\<lambda>i. p @ str_nat i) [0..<length v']) v'
     \<and> length (filter (\<lambda>(key, _). startswith key p) t') = length v'
     \<and> filter (\<lambda>(key, _). \<not> startswith key p) t'
         = filter (\<lambda>(key, _). \<not> startswith key p) (attributes s)"
proof -
  let ?rest = "filter (\<lambda>(key, _). \<not> startswith key p) (attributes s)"
  have pre: "filter (\<lambda>(key, _). startswith key p) (memory_items w p @ ?rest) = memory_items w p" for w
    by (auto simp: filter_prefixed_memory_items filter_empty_conv)
  have non: "filter (\<lambda>(key, _). \<not> startswith key p) (memory_items w p @ ?rest) = ?rest" for w
    by (simp add: filter_prefixed_memory_items)
  have second: "augment_state (State (memory_items v p @ ?rest)) v' p
                = Inr (State (memory_items v' p @ ?rest))"
    by (simp only: augment_state_eq attributes.simps non)
  show ?thesis
  proof (intro exI conjI)
    show "augment_state s v p = Inr (State (memory_items v p @ ?rest))"
      by (rule augment_state_eq)
    show "filter (\<lambda>(key, _). startswith key p) (memory_items v p @ ?rest)
          = zip (map (\<lambda>i. p @ str_nat i) [0..<length v]) v"
      by (subst pre) (rule memory_items_eq)
    show "filter (\<lambda>(key, _). \<not> startswith key p) (memory_items v p @ ?rest) = ?rest"
      by (rule non)
    show "augment_state (State (memory_items v p @ ?rest)) v' p
          = Inr (State (memory_items v' p @ ?rest))"
      by (rule second)
    show "filter (\<lambda>(key, _). startswith key p) (memory_items v' p @ ?rest)
          = zip (map (\<lambda>i. p @ str_nat i) [0..<length v']) v'"
      by (subst pre) (rule memory_items_eq)
    show "length (filter (\<lambda>(key, _). startswith key p) (memory_items v' p @ ?rest)) = length v'"
      by (subst pre) (simp add: memory_items_eq)
    show "filter (\<lambda>(key, _). \<not> startswith key p) (memory_items v' p @ ?rest) = ?rest"
      by (rule non)
  qed
qed

section \<open>Actions and reactions of the memory environments\<close>

lemma gate_inner_loop:
  "foldl (\<lambda>acts (attr, _). if startswith attr pre then acts else acts @ [f attr]) acts items
   = acts @ map f (filter (\<lambda>attr. \<not> startswith attr pre) (map fst items))"
  by (induction items arbitrary: acts) (auto simp: case_prod_unfold)

lemma gate_outer_loop:
  "foldl (\<lambda>acts slot_num. acts @ g slot_num) acts slots = acts @ concat (map g slots)"
  by (induction slots arbitrary: acts) auto

lemma length_concat_const:
  "length (concat (map (\<lambda>slot_num. map (h slot_num) names) slots)) = length slots * length names"
  by (induction slots) auto

text \<open>
  C7. When the base class returns no actions, the gating environment returns the empty
  list. When it returns some and its observation is a record, the gating environment
  returns the base actions followed by one \<^verbatim>\<open>gate\<close> action for every slot (outer loop)
  and every attribute of the observation that does not start with \<^verbatim>\<open>memory_\<close> (inner
  loop): \<open>n * m\<close> synthetic actions.
\<close>

theorem gating_get_actions_growth:
  "(super_get_actions self = [] \<longrightarrow>
      GatingMemory_get_actions super_get_actions super_get_observation self = [])
   \<and> (\<forall>obs. super_get_actions self \<noteq> [] \<and> super_get_observation self = Some obs \<longrightarrow>
        GatingMemory_get_actions super_get_actions super_get_observation self
          = super_get_actions self
            @ concat (map (\<lambda>slot_num.
                        map (\<lambda>attr. Action ''gate'' [(''slot'', PInt (int slot_num)),
                                                      (''attribute'', PStr attr)])
                            (filter (\<lambda>attr. \<not> startswith attr ''memory_'')
                                    (map fst (attributes obs))))
                      [0..<length (gm_memories self)])
        \<and> length (GatingMemory_get_actions super_get_actions super_get_observation self)
          = length (super_get_actions self)
            + length (gm_memories self)
              * length (filter (\<lambda>attr. \<not> startswith attr ''memory_'')
                               (map fst (attributes obs))))"
  by (simp add: GatingMemory_get_actions_def Let_def gate_inner_loop gate_outer_loop
      length_concat_const)

theorem gating_get_actions_growth_witness:
  "SimpleTMaze_get_actions (maze_at 1 1) = []
   \<and> GatedTMaze_get_actions (gated_maze 1 1 [PNone, PNone]) = []
   \<and> SimpleTMaze_get_actions (maze_at 0 0) \<noteq> []
   \<and> GatedTMaze_get_observation (gated_maze 0 0 [PNone, PNone])
       = Some (State [(''x'', PInt 0), (''y'', PInt 0), (''symbol'', PInt 1)])
   \<and> GatedTMaze_get_actions (gated_maze 0 0 [PNone, PNone])
       = [Action ''up'' [],
          Action ''gate'' [(''slot'', PInt 0), (''attribute'', PStr ''x'')],
          Action ''gate'' [(''slot'', PInt 0), (''attribute'', PStr ''y'')],
          Action ''gate'' [(''slot'', PInt 0), (''attribute'', PStr ''symbol'')],
          Action ''gate'' [(''slot'', PInt 1), (''attribute'', PStr ''x'')],
          Action ''gate'' [(''slot'', PInt 1), (''attribute'', PStr ''y'')],
          Action ''gate'' [(''slot'', PInt 1), (''attribute'', PStr ''symbol'')]]
   \<and> length (GatedTMaze_get_actions (gated_maze 0 0 [PNone, PNone])) = 1 + 2 * 3"
proof -
  let ?sga = "\<lambda>self :: tmaze gating_env. SimpleTMaze_get_actions (gm_base self)"
  have ended: "?sga (gated_maze 1 1 [PNone, PNone]) = []"
    by (simp add: gated_maze_def maze_at_def SimpleTMaze_get_actions_def)
  have acts: "?sga (gated_maze 0 0 [PNone, PNone]) = [Action ''up'' []]"
    by (simp add: gated_maze_def maze_at_def SimpleTMaze_get_actions_def)
  have obs: "GatedTMaze_get_observation (gated_maze 0 0 [PNone, PNone])
             = Some (State [(''x'', PInt 0), (''y'', PInt 0), (''symbol'', PInt 1)])"
    by (simp add: GatedTMaze_get_observation_def gated_maze_def maze_at_def
        SimpleTMaze_get_observation_def)
  have mems: "gm_memories (gated_maze 0 0 [PNone, PNone]) = [PNone, PNone]"
    by (simp add: gated_maze_def)
  have upt2: "[0..<2] = [0, 1]"
    by (simp add: upt_rec)
  have g1: "GatedTMaze_get_actions (gated_maze 1 1 [PNone, PNone]) = []"
    using gating_get_actions_growth
      [of ?sga "gated_maze 1 1 [PNone, PNone]" GatedTMaze_get_observation] ended
    by (simp add: GatedTMaze_get_actions_def)
  have g0: "GatedTMaze_get_actions (gated_maze 0 0 [PNone, PNone])
       = [Action ''up'' [],
          Action ''gate'' [(''slot'', PInt 0), (''attribute'', PStr ''x'')],
          Action ''gate'' [(''slot'', PInt 0), (''attribute'', PStr ''y'')],
          Action ''gate'' [(''slot'', PInt 0), (''attribute'', PStr ''symbol'')],
          Action ''gate'' [(''slot'', PInt 1), (''attribute'', PStr ''x'')],
          Action ''gate'' [(''slot'', PInt 1), (''attribute'', PStr ''y'')],
          Action ''gate'' [(''slot'', PInt 1), (''attribute'', PStr ''symbol'')]]"
    using gating_get_actions_growth
      [of ?sga "gated_maze 0 0 [PNone, PNone]" GatedTMaze_get_observation] acts obs
    by (simp add: GatedTMaze_get_actions_def mems upt2 startswith_def)
  show ?thesis
    using g0 g1 obs acts ended by (simp add: gated_maze_def)
qed

text \<open>
  C6. The T-maze with \<open>length = 1\<close> and goal on the right is driven to its end by
  \<^verbatim>\<open>up\<close> and \<^verbatim>\<open>right\<close>. There \<open>get_actions\<close> returns the empty list, and the base
  class rejects \<^verbatim>\<open>left\<close> by its assertion. A \<^verbatim>\<open>gate\<close> action is nevertheless carried
  out: the slot is overwritten and the internal reward \<open>0\<close> is returned. The same holds
  for \<^verbatim>\<open>store\<close> and \<^verbatim>\<open>retrieve\<close> of the long-term memory.
\<close>

theorem synthetic_action_at_terminal_state:
  "GatedTMaze_react (gated_maze 0 0 [PNone]) (Action ''up'' []) = Inr (- 1, gated_maze 0 1 [PNone])
   \<and> GatedTMaze_react (gated_maze 0 1 [PNone]) (Action ''right'' [])
       = Inr (10, gated_maze 1 1 [PNone])
   \<and> GatedTMaze_get_actions (gated_maze 1 1 [PNone]) = []
   \<and> GatedTMaze_react (gated_maze 1 1 [PNone]) (Action ''left'' []) = Inl AssertionError
   \<and> GatedTMaze_react (gated_maze 1 1 [PNone])
        (Action ''gate'' [(''slot'', PInt 0), (''attribute'', PStr ''x'')])
       = Inr (0, gated_maze 1 1 [PInt 1])
   \<and> LtmTMaze_get_actions (ltm_maze 1 1 [PNone] [PNone]) = []
   \<and> LtmTMaze_react (ltm_maze 1 1 [PNone] [PNone])
        (Action ''store'' [(''slot'', PInt 0), (''attribute'', PStr ''x'')])
       = Inr (0, ltm_maze 1 1 [PNone] [PInt 1])
   \<and> LtmTMaze_react (ltm_maze 1 1 [PNone] [PInt 1])
        (Action ''retrieve'' [(''wm_slot'', PInt 0), (''ltm_slot'', PInt 0)])
       = Inr (0, ltm_maze 1 1 [PInt 1] [PInt 1])"
proof -
  have up: "GatedTMaze_react (gated_maze 0 0 [PNone]) (Action ''up'' [])
            = Inr (- 1, gated_maze 0 1 [PNone])"
    by (simp add: GatedTMaze_react_def GatingMemory_react_def GatedTMaze_get_actions_def
        GatingMemory_get_actions_def GatedTMaze_get_observation_def SimpleTMaze_react_def
        SimpleTMaze_get_actions_def SimpleTMaze_get_observation_def gated_maze_def maze_at_def
        py_in_def attrdict_eq_def dict_eq_def startswith_def)
  have right: "GatedTMaze_react (gated_maze 0 1 [PNone]) (Action ''right'' [])
               = Inr (10, gated_maze 1 1 [PNone])"
    by (simp add: GatedTMaze_react_def GatingMemory_react_def GatedTMaze_get_actions_def
        GatingMemory_get_actions_def GatedTMaze_get_observation_def SimpleTMaze_react_def
        SimpleTMaze_get_actions_def SimpleTMaze_get_observation_def gated_maze_def maze_at_def
        py_in_def attrdict_eq_def dict_eq_def startswith_def)
  have none: "GatedTMaze_get_actions (gated_maze 1 1 [PNone]) = []"
    by (simp add: GatedTMaze_get_actions_def GatingMemory_get_actions_def
        SimpleTMaze_get_actions_def gated_maze_def maze_at_def)
  have left: "GatedTMaze_react (gated_maze 1 1 [PNone]) (Action ''left'' []) = Inl AssertionError"
    by (simp add: GatedTMaze_react_def GatingMemory_react_def none SimpleTMaze_react_def
        py_in_def)
  have gate: "GatedTMaze_react (gated_maze 1 1 [PNone])
                (Action ''gate'' [(''slot'', PInt 0), (''attribute'', PStr ''x'')])
              = Inr (0, gated_maze 1 1 [PInt 1])"
    by (simp add: GatedTMaze_react_def GatingMemory_react_def GatedTMaze_get_observation_def
        SimpleTMaze_get_observation_def getattr_observation_def list_setitem_def
        gated_maze_def maze_at_def)
  have lnone: "LtmTMaze_get_actions (ltm_maze 1 1 [PNone] [PNone]) = []"
    by (simp add: LtmTMaze_get_actions_def LongTermMemory_get_actions_def
        SimpleTMaze_get_actions_def ltm_maze_def maze_at_def)
  have store: "LtmTMaze_react (ltm_maze 1 1 [PNone] [PNone])
                 (Action ''store'' [(''slot'', PInt 0), (''attribute'', PStr ''x'')])
               = Inr (0, ltm_maze 1 1 [PNone] [PInt 1])"
    by (simp add: LtmTMaze_react_def LongTermMemory_react_def LtmTMaze_get_observation_def
        SimpleTMaze_get_observation_def getattr_observation_def list_setitem_def
        ltm_maze_def maze_at_def)
  have retrieve: "LtmTMaze_react (ltm_maze 1 1 [PNone] [PInt 1])
                    (Action ''retrieve'' [(''wm_slot'', PInt 0), (''ltm_slot'', PInt 0)])
                  = Inr (0, ltm_maze 1 1 [PInt 1] [PInt 1])"
    by (simp add: LtmTMaze_react_def LongTermMemory_react_def list_setitem_def
        list_getitem_def ltm_maze_def maze_at_def)
  show ?thesis
    using up right none left gate lnone store retrieve by simp
qed

section \<open>The tabular learner\<close>

lemma key_match_refl [simp]: "key_match k k"
  by (simp add: key_match_def)

lemma key_match_examples [simp]:
  "key_match act_right act_down = False" "key_match act_down act_right = False"
  "key_match cell00 None = False" "key_match None cell00 = False"
  "key_match act_right None = False" "key_match None act_right = False"
  "key_match act_down None = False" "key_match None act_down = False"
  by (simp_all add: key_match_def act_right_def act_down_def cell00_def sorted_items_def)

lemma cell00_not_None [simp]: "cell00 \<noteq> None"
  by (simp add: cell00_def)

lemma trained_agent_eq:
  "trained_agent g =
     \<lparr>rng = g, prev_observation = cell00, prev_action = act_right,
      value_function = [(cell00, [(act_right, - 1)])],
      learning_rate = 1/2, discount_rate = 1, exploration_rate = 1/2\<rparr>"
  by (simp add: trained_agent_def observe_reward_def new_agent_def force_act_def get_value_def
      get_best_value_def get_best_action_def get_stored_actions_def)

text \<open>
  Two reads that leave the table as it is: of an observation that is not a key (the guard
  of \<open>get_value\<close>), and of a stored action.
\<close>

lemma get_value_guard:
  "dict_get (value_function ag) observation = None \<Longrightarrow> get_value ag observation action = (0, ag)"
  by (simp add: get_value_def)

lemma dict_get_stored: "k \<in> set (map fst d) \<Longrightarrow> dict_get d k \<noteq> None"
proof (induction d)
  case Nil
  then show ?case by simp
next
  case (Cons p d)
  obtain k' v where p: "p = (k', v)" by (cases p)
  show ?case
  proof (cases "key_match k' k")
    case True
    then show ?thesis using p by simp
  next
    case False
    then have "k' \<noteq> k" using key_match_refl by auto
    then have "k \<in> set (map fst d)" using Cons.prems p by auto
    then show ?thesis using Cons.IH False p by simp
  qed
qed

lemma get_value_stored:
  assumes "action \<in> set (get_stored_actions ag observation)"
  shows "snd (get_value ag observation action) = ag"
proof (cases "dict_get (value_function ag) observation")
  case None
  then show ?thesis by (simp add: get_value_def)
next
  case (Some vals)
  then have "action \<in> set (map fst vals)" using assms by (simp add: get_stored_actions_def)
  then obtain x where "dict_get vals action = Some x" using dict_get_stored by blast
  then show ?thesis using Some by (simp add: get_value_def)
qed

text \<open>
  C9. At an observation with no stored actions, \<open>get_best_action\<close> returns \<^verbatim>\<open>None\<close>
  and \<open>get_best_value\<close> is \<open>get_value\<close> on the pair \<open>(observation, None)\<close>, which is
  \<open>0\<close>.
\<close>

theorem best_of_nothing_stored:
  assumes "get_stored_actions ag observation = []"
  shows "fst (get_best_action ag observation) = None
         \<and> get_best_value ag observation = get_value ag observation None
         \<and> fst (get_best_value ag observation) = 0"
  using assms
  by (auto simp: get_best_action_def get_best_value_def get_value_def get_stored_actions_def
      split: option.splits)

theorem best_of_nothing_stored_witness:
  "get_stored_actions (trained_agent []) None = []
   \<and> fst (get_best_action (trained_agent []) None) = None
   \<and> get_best_value (trained_agent []) None = get_value (trained_agent []) None None
   \<and> fst (get_best_value (trained_agent []) None) = 0"
proof -
  have h: "get_stored_actions (trained_agent []) None = []"
    by (simp add: trained_agent_eq get_stored_actions_def)
  from h best_of_nothing_stored [OF h] show ?thesis by blast
qed

text \<open>
  C4. A read creates a table entry: after one update of \<open>(cell00, right)\<close>, the call
  \<^verbatim>\<open>get_value(cell00, down)\<close> returns \<open>0\<close> and leaves the action \<^verbatim>\<open>down\<close> stored at
  \<open>cell00\<close>, although no update ever had \<open>(cell00, down)\<close> as its target.
\<close>

theorem get_value_creates_entry:
  "value_function (trained_agent []) = [(cell00, [(act_right, - 1)])]
   \<and> get_stored_actions (trained_agent []) cell00 = [act_right]
   \<and> fst (get_value (trained_agent []) cell00 act_down) = 0
   \<and> value_function (snd (get_value (trained_agent []) cell00 act_down))
       = [(cell00, [(act_right, - 1), (act_down, 0)])]
   \<and> get_stored_actions (snd (get_value (trained_agent []) cell00 act_down)) cell00
       = [act_right, act_down]"
  by (simp add: trained_agent_eq get_value_def get_stored_actions_def)

text \<open>
  C5. With the cursor at \<open>(cell00, down)\<close> and the table holding only
  \<open>(cell00, right) = -1\<close>, \<^verbatim>\<open>observe_reward(cell00, 0)\<close> stores \<open>0\<close> for
  \<open>(cell00, down)\<close>. The update rule, with the prior value \<open>0\<close> of the absent entry and
  the best stored value \<open>-1\<close> at \<open>cell00\<close>, gives \<open>-1/2\<close>: reading the absent entry
  first stores \<open>0\<close> for it, and that entry then takes part in the maximum.
\<close>

theorem observe_reward_not_update_rule:
  "fst (get_value (snd (force_act (trained_agent []) cell00 act_down)) cell00 act_down) = 0
   \<and> fst (get_best_value (snd (force_act (trained_agent []) cell00 act_down)) cell00) = - 1
   \<and> (1 - 1/2) * 0 + 1/2 * (0 + 1 * (- 1)) = (- 1/2 :: real)
   \<and> value_function
        (observe_reward (snd (force_act (trained_agent []) cell00 act_down)) cell00 0)
       = [(cell00, [(act_right, - 1), (act_down, 0)])]"
  by (simp add: trained_agent_eq force_act_def observe_reward_def get_value_def
      get_best_value_def get_best_action_def get_stored_actions_def)

section \<open>The epsilon-greedy subclass\<close>

lemma EpsilonGreedy_act_returns_only_if:
  assumes "EpsilonGreedy_act R ag observation actions reward = Some y"
  shows "\<not> (actions \<noteq> [] \<and> exploration_rate ag = 0 \<and> (\<forall>g. 0 \<le> fst (rng_random R g)))"
proof (rule EpsilonGreedy_act.raw_induct
    [where P = "\<lambda>R ag observation actions reward y.
        \<not> (actions \<noteq> [] \<and> exploration_rate ag = 0 \<and> (\<forall>g. 0 \<le> fst (rng_random R g)))",
      OF _ assms])
  fix act :: "'a rng_ops \<Rightarrow> 'a agent \<Rightarrow> attrdict option \<Rightarrow> attrdict list \<Rightarrow> real option
               \<Rightarrow> (py_error + attrdict option \<times> 'a agent) option"
  fix R ag observation actions reward y
  assume IH: "\<And>R ag observation actions reward y.
      act R ag observation actions reward = Some y \<Longrightarrow>
      \<not> (actions \<noteq> [] \<and> exploration_rate ag = 0 \<and> (\<forall>g. 0 \<le> fst (rng_random R g)))"
  assume body: "(if actions = [] then
        (case reward of
           None \<Rightarrow> Some (Inl TypeError)
         | Some r \<Rightarrow> Some (Inr (None, observe_reward ag observation r)))
      else
        (case rng_random R (rng ag) of
           (u, g1) \<Rightarrow>
             if u < exploration_rate ag then
               (case rng_choice R g1 actions of
                  (c, g2) \<Rightarrow> Some (Inr (force_act (ag\<lparr>rng := g2\<rparr>) observation (Some c))))
             else act R (ag\<lparr>rng := g1\<rparr>) observation actions reward)) = Some y"
  show "\<not> (actions \<noteq> [] \<and> exploration_rate ag = 0 \<and> (\<forall>g. 0 \<le> fst (rng_random R g)))"
  proof
    assume h: "actions \<noteq> [] \<and> exploration_rate ag = 0 \<and> (\<forall>g. 0 \<le> fst (rng_random R g))"
    obtain u g1 where r: "rng_random R (rng ag) = (u, g1)"
      by (cases "rng_random R (rng ag)")
    have "0 \<le> u" using h r by (metis fst_conv)
    then have "act R (ag\<lparr>rng := g1\<rparr>) observation actions reward = Some y"
      using body h r by (simp split: if_splits)
    from IH [OF this] show False using h by simp
  qed
qed

lemma EpsilonGreedy_act_zero_diverges:
  assumes "actions \<noteq> []" and "exploration_rate ag = 0" and "\<forall>g. 0 \<le> fst (rng_random R g)"
  shows "EpsilonGreedy_act R ag observation actions reward = None"
  using EpsilonGreedy_act_returns_only_if [of R ag observation actions reward] assms
  by (cases "EpsilonGreedy_act R ag observation actions reward") auto

lemma scripted_rng_nonneg: "0 \<le> fst (rng_random scripted_rng g)"
  by (simp add: scripted_rng_def split: list.splits)

text \<open>
  C2. With exploration rate \<open>0\<close> the call does not return: no draw is below \<open>0\<close>, so
  every activation of \<open>act\<close> calls \<open>act\<close> again.
\<close>

theorem EpsilonGreedy_act_zero_no_return:
  "EpsilonGreedy_act scripted_rng (new_agent [3, 7] 0 (1/2) (9/10)) cell00
     [Action ''right'' [], Action ''down'' []] None = None"
  by (rule EpsilonGreedy_act_zero_diverges)
     (simp_all add: new_agent_def scripted_rng_nonneg)

text \<open>
  Whenever \<open>EpsilonGreedy_act\<close> returns on a non-empty action list, the action it returns
  is a result of \<^verbatim>\<open>rng.choice(actions)\<close>, committed by \<open>force_act\<close>.
\<close>

lemma EpsilonGreedy_act_returns_choice:
  assumes "EpsilonGreedy_act R ag observation actions reward = Some y"
  shows "actions = [] \<or> (\<exists>g ag'. y = Inr (force_act ag' observation (Some (fst (rng_choice R g actions)))))"
proof (rule EpsilonGreedy_act.raw_induct
    [where P = "\<lambda>R ag observation actions reward y.
       actions = [] \<or> (\<exists>g ag'. y = Inr (force_act ag' observation (Some (fst (rng_choice R g actions)))))",
      OF _ assms])
  fix act :: "'a rng_ops \<Rightarrow> 'a agent \<Rightarrow> attrdict option \<Rightarrow> attrdict list \<Rightarrow> real option
               \<Rightarrow> (py_error + attrdict option \<times> 'a agent) option"
  fix R ag observation actions reward y
  assume IH: "\<And>R ag observation actions reward y.
      act R ag observation actions reward = Some y \<Longrightarrow>
      actions = [] \<or> (\<exists>g ag'. y = Inr (force_act ag' observation (Some (fst (rng_choice R g actions)))))"
  assume body: "(if actions = [] then
        (case reward of
           None \<Rightarrow> Some (Inl TypeError)
         | Some r \<Rightarrow> Some (Inr (None, observe_reward ag observation r)))
      else
        (case rng_random R (rng ag) of
           (u, g1) \<Rightarrow>
             if u < exploration_rate ag then
               (case rng_choice R g1 actions of
                  (c, g2) \<Rightarrow> Some (Inr (force_act (ag\<lparr>rng := g2\<rparr>) observation (Some c))))
             else act R (ag\<lparr>rng := g1\<rparr>) observation actions reward)) = Some y"
  show "actions = [] \<or> (\<exists>g ag'. y = Inr (force_act ag' observation (Some (fst (rng_choice R g actions)))))"
  proof (cases "actions = []")
    case True
    then show ?thesis by simp
  next
    case False
    obtain u g1 where r: "rng_random R (rng ag) = (u, g1)"
      by (cases "rng_random R (rng ag)")
    show ?thesis
    proof (cases "u < exploration_rate ag")
      case True
      obtain c g2 where c: "rng_choice R g1 actions = (c, g2)"
        by (cases "rng_choice R g1 actions")
      have "y = Inr (force_act (ag\<lparr>rng := g2\<rparr>) observation (Some (fst (rng_choice R g1 actions))))"
        using body False r True c by simp
      then show ?thesis by blast
    next
      case no: False
      have "act R (ag\<lparr>rng := g1\<rparr>) observation actions reward = Some y"
        using body False r no by simp
      from IH [OF this] show ?thesis .
    qed
  qed
qed

text \<open>
  C1. With exploration rate \<open>1/2\<close>, the draws \<open>0.9\<close> and \<open>0.1\<close>, and \<^verbatim>\<open>right\<close> the only
  stored (hence best) action at \<open>cell00\<close>: the draw \<open>0.9\<close> is not below the rate, and the
  call returns the randomly chosen \<^verbatim>\<open>down\<close> after a second draw, whereas \<open>Agent.act\<close>
  on the same agent returns the stored \<^verbatim>\<open>right\<close>.
\<close>

theorem EpsilonGreedy_act_not_greedy:
  "fst (rng_random scripted_rng [9, 1, 1]) = 9/10
   \<and> \<not> 9/10 < exploration_rate (trained_agent [9, 1, 1])
   \<and> EpsilonGreedy_act scripted_rng (trained_agent [9, 1, 1]) cell00
        [Action ''right'' [], Action ''down'' []] None
       = Some (Inr (act_down, (trained_agent [])\<lparr>prev_action := act_down\<rparr>))
   \<and> Agent_act scripted_rng (trained_agent [1, 1]) cell00
        [Action ''right'' [], Action ''down'' []]
       = Inr (act_right, trained_agent [1, 1])"
proof -
  let ?acts = "[Action ''right'' [], Action ''down'' []]"
  have step1: "EpsilonGreedy_act scripted_rng (trained_agent [9, 1, 1]) cell00 ?acts None
               = EpsilonGreedy_act scripted_rng (trained_agent [1, 1]) cell00 ?acts None"
    by (subst EpsilonGreedy_act.simps) (simp add: scripted_rng_def trained_agent_eq)
  have step2: "EpsilonGreedy_act scripted_rng (trained_agent [1, 1]) cell00 ?acts None
               = Some (Inr (act_down, (trained_agent [])\<lparr>prev_action := act_down\<rparr>))"
    by (subst EpsilonGreedy_act.simps)
       (simp add: scripted_rng_def trained_agent_eq force_act_def act_down_def)
  have greedy: "Agent_act scripted_rng (trained_agent [1, 1]) cell00 ?acts
                = Inr (act_right, trained_agent [1, 1])"
    by (simp add: Agent_act_def trained_agent_eq force_act_def get_best_action_def
        get_stored_actions_def get_value_def act_right_def)
  have draw: "fst (rng_random scripted_rng [9, 1, 1]) = 9/10"
    by (simp add: scripted_rng_def)
  have rate: "\<not> 9/10 < exploration_rate (trained_agent [9, 1, 1])"
    by (simp add: trained_agent_eq)
  show ?thesis using step1 step2 greedy draw rate by simp
qed

end
